theory Spec2Isabelle
  imports Main
begin

section \<open>Exceptions (core/exceptions.py)\<close>

text \<open>
  An application exception carries the name of its class (what the error body reports as
  \<open>type\<close>), a message, an HTTP status code and an \<open>extra\<close> dictionary.  Every
  \<open>__init__\<close> of the hierarchy is a function that takes the class of the object being
  built and passes it up to \<open>BaseAppException.__init__\<close>, as \<open>super().__init__\<close> does.
\<close>

record app_exception =
  exc_type :: string
  message :: string
  status_code :: nat
  extra :: "(string \<times> string) list"

text \<open>
  What a call can raise: an application exception, or another Python exception
  (\<open>ValueError\<close>, \<open>KeyError\<close>, an error of a library), kept by the name of its class.
\<close>

datatype exn = AppExc app_exception | PyExc string

definition BaseAppException_init ::
  "string \<Rightarrow> string \<Rightarrow> nat \<Rightarrow> (string \<times> string) list option \<Rightarrow> app_exception" where
  "BaseAppException_init cls msg code ex =
     \<lparr>exc_type = cls, message = msg, status_code = code,
      extra = (case ex of None \<Rightarrow> [] | Some e \<Rightarrow> e)\<rparr>"

definition ResourceNotFound_init ::
  "string \<Rightarrow> string \<Rightarrow> string \<Rightarrow> (string \<times> string) list option \<Rightarrow> app_exception" where
  "ResourceNotFound_init cls resource identifier ex =
     BaseAppException_init cls (resource @ '' with id '' @ [CHR 0x27] @ identifier @ [CHR 0x27] @ '' not found'') 404 ex"

definition AuthenticationError_init ::
  "string \<Rightarrow> string \<Rightarrow> (string \<times> string) list option \<Rightarrow> app_exception" where
  "AuthenticationError_init cls msg ex = BaseAppException_init cls msg 401 ex"

definition TokenError_init ::
  "string \<Rightarrow> string \<Rightarrow> (string \<times> string) list option \<Rightarrow> app_exception" where
  "TokenError_init cls msg ex = AuthenticationError_init cls msg ex"

definition TokenError :: "string \<Rightarrow> exn" where
  "TokenError msg = AppExc (TokenError_init ''TokenError'' msg None)"

definition UserNotFound :: "string \<Rightarrow> exn" where
  "UserNotFound identifier = AppExc (ResourceNotFound_init ''UserNotFound'' ''User'' identifier None)"

definition InvalidCredentials :: exn where
  "InvalidCredentials =
     AppExc (AuthenticationError_init ''InvalidCredentials'' ''Invalid email or password'' None)"

definition InactiveUser :: exn where
  "InactiveUser =
     AppExc (AuthenticationError_init ''InactiveUser'' ''User account is inactive'' None)"

text \<open>
  Modelled from the spec: \<open>TokenRevokedError\<close> is defined in the backend's
  \<open>src/core/exceptions.py\<close>, which is not among the sources.  The specification gives its
  kind (\<open>TokenRevoked\<close>, replay detected) and its status 401; the message is not specified
  and is left empty here.
\<close>

definition TokenRevokedError :: exn where
  "TokenRevokedError = AppExc (TokenError_init ''TokenRevokedError'' [] None)"

section \<open>Settings and the external libraries\<close>

datatype jwt_algorithm = HS256 | HS384 | HS512

text \<open>
  A value of a claim: a string, an integer, or a point in time.  Time is counted in
  seconds; \<open>timedelta(minutes = m)\<close> is \<open>60 * m\<close>.
\<close>

datatype jwt_value = JStr string | JInt int | JTime int

type_synonym claims = "(string \<times> jwt_value) list"

text \<open>A UUID is kept as its canonical text, the string that \<open>str\<close> returns.\<close>

type_synonym uuid = string

record settings =
  SECRET_KEY :: string
  JWT_ALGORITHM :: jwt_algorithm
  ACCESS_TOKEN_EXPIRE_MINUTES :: int
  REFRESH_TOKEN_TTL :: int

text \<open>
  The interface of \<open>pwdlib.PasswordHash\<close>.  Hashing draws a salt, which is an argument
  here.  \<open>verify\<close> and \<open>verify_and_update\<close> either return or raise an exception (a subclass
  of \<open>Exception\<close>, kept by its name).
\<close>

record password_hash =
  ph_hash :: "string \<Rightarrow> string \<Rightarrow> string"
  ph_verify :: "string \<Rightarrow> string \<Rightarrow> string + bool"
  ph_verify_and_update :: "string \<Rightarrow> string \<Rightarrow> string \<Rightarrow> string + (bool \<times> string option)"

text \<open>
  The environment of a process: its settings, the password hasher, the salt drawn when
  the module was imported (for \<open>DUMMY_HASH\<close>), PyJWT's \<open>encode\<close> and \<open>decode\<close> (\<open>decode\<close>
  returns the claims or the text of the \<open>InvalidTokenError\<close> it raises), the parser of
  \<open>uuid.UUID\<close> and the one-way hash of refresh tokens.
\<close>

record env =
  settings :: settings
  password_hasher :: password_hash
  import_salt :: string
  jwt_encode :: "claims \<Rightarrow> string \<Rightarrow> jwt_algorithm \<Rightarrow> string"
  jwt_decode :: "string \<Rightarrow> string \<Rightarrow> jwt_algorithm list \<Rightarrow> string list \<Rightarrow> string + claims"
  uuid_parse :: "string \<Rightarrow> uuid option"
  digest :: "string \<Rightarrow> string"

definition TokenType_ACCESS :: string where
  "TokenType_ACCESS = ''access''"

section \<open>Password hashing and access tokens (core/security.py)\<close>

definition hash_password :: "env \<Rightarrow> string \<Rightarrow> string \<Rightarrow> string" where
  "hash_password e salt password = ph_hash (password_hasher e) salt password"

text \<open>\<open>try: return verify_and_update(...)  except Exception: return False, None\<close>\<close>

definition verify_password ::
  "env \<Rightarrow> string \<Rightarrow> string \<Rightarrow> string \<Rightarrow> exn + (bool \<times> string option)" where
  "verify_password e salt plain_password hashed_password =
     (case ph_verify_and_update (password_hasher e) salt plain_password hashed_password of
        Inr r \<Rightarrow> Inr r
      | Inl err \<Rightarrow> Inr (False, None))"

definition DUMMY_HASH :: "env \<Rightarrow> string" where
  "DUMMY_HASH e =
     ph_hash (password_hasher e) (import_salt e) ''dummy_password_for_timing_attack_prevention''"

text \<open>
  With no stored hash the hasher's \<open>verify\<close> is called on \<open>DUMMY_HASH\<close>, outside any
  \<open>try\<close>: an exception it raises propagates, and its boolean is discarded.
\<close>

definition verify_password_with_timing_safety ::
  "env \<Rightarrow> string \<Rightarrow> string \<Rightarrow> string option \<Rightarrow> exn + (bool \<times> string option)" where
  "verify_password_with_timing_safety e salt plain_password hashed_password =
     (case hashed_password of
        None \<Rightarrow>
          (case ph_verify (password_hasher e) plain_password (DUMMY_HASH e) of
             Inl err \<Rightarrow> Inl (PyExc err)
           | Inr b \<Rightarrow> Inr (False, None))
      | Some h \<Rightarrow> verify_password e salt plain_password h)"

text \<open>
  \<open>dict.update\<close>: each pair of the argument is stored in turn, replacing the value of a
  key that is present and appending a new key.
\<close>

fun dict_set :: "string \<Rightarrow> jwt_value \<Rightarrow> claims \<Rightarrow> claims" where
  "dict_set k v [] = [(k, v)]"
| "dict_set k v (p # ps) = (if fst p = k then (k, v) # ps else p # dict_set k v ps)"

definition dict_update :: "claims \<Rightarrow> claims \<Rightarrow> claims" where
  "dict_update d other = fold (\<lambda>p acc. dict_set (fst p) (snd p) acc) other d"

definition access_token_payload :: "env \<Rightarrow> int \<Rightarrow> uuid \<Rightarrow> claims option \<Rightarrow> claims" where
  "access_token_payload e now user_id extra_claims =
     (let payload =
            [(''sub'', JStr user_id),
             (''type'', JStr TokenType_ACCESS),
             (''iat'', JTime now),
             (''exp'', JTime (now + 60 * ACCESS_TOKEN_EXPIRE_MINUTES (settings e)))]
      in case extra_claims of
           None \<Rightarrow> payload
         | Some ex \<Rightarrow> if ex = [] then payload else dict_update payload ex)"

definition create_access_token :: "env \<Rightarrow> int \<Rightarrow> uuid \<Rightarrow> claims option \<Rightarrow> string" where
  "create_access_token e now user_id extra_claims =
     jwt_encode e (access_token_payload e now user_id extra_claims)
       (SECRET_KEY (settings e)) (JWT_ALGORITHM (settings e))"

definition decode_access_token :: "env \<Rightarrow> string \<Rightarrow> string + claims" where
  "decode_access_token e token =
     jwt_decode e token (SECRET_KEY (settings e)) [JWT_ALGORITHM (settings e)]
       [''exp'', ''sub'', ''iat'', ''type'']"

section \<open>The data model\<close>

text \<open>
  A row of the \<open>users\<close> table.  The fields are those the services and repositories read
  and write (\<open>id\<close>, \<open>email\<close>, \<open>hashed_password\<close>, \<open>full_name\<close>, \<open>is_active\<close>,
  \<open>token_version\<close>); the example stack's \<open>User\<close> has the first three and \<open>is_active\<close>.
\<close>

record user =
  u_id :: uuid
  email :: string
  hashed_password :: string
  full_name :: "string option"
  is_active :: bool
  token_version :: int

text \<open>
  Modelled from the spec: the \<open>RefreshToken\<close> model (\<open>src/models/RefreshToken.py\<close>) is not
  among the sources.  The specification lists its fields: owner, hash of the raw token,
  family, expiry, revoked flag and optional device metadata.  The primary key of a row is
  its position in the table.
\<close>

record refresh_token =
  rt_user_id :: uuid
  token_hash :: string
  family_id :: uuid
  expires_at :: int
  is_revoked :: bool
  device_id :: "string option"
  device_name :: "string option"
  ip_address :: "string option"

text \<open>
  Modelled from the spec: \<open>is_expired\<close> is a property of the absent \<open>RefreshToken\<close>
  model.  Expiry is time-based: a token is expired once the clock has reached
  \<open>expires_at\<close>.
\<close>

definition is_expired :: "int \<Rightarrow> refresh_token \<Rightarrow> bool" where
  "is_expired now t = (expires_at t \<le> now)"

text \<open>
  Modelled from the spec: a token is live when it is neither revoked nor expired.
\<close>

definition is_live :: "int \<Rightarrow> refresh_token \<Rightarrow> bool" where
  "is_live now t = (\<not> is_revoked t \<and> \<not> is_expired now t)"

text \<open>The database as a session sees it: the two tables, in insertion order.\<close>

record db =
  users :: "user list"
  tokens :: "refresh_token list"

text \<open>
  The rotation invariant of the specification: a family has at most one live token.
  \<open>live_in_family\<close> lists the live tokens of a family in table order.
\<close>

definition live_in_family :: "int \<Rightarrow> db \<Rightarrow> uuid \<Rightarrow> refresh_token list" where
  "live_in_family now s fid = filter (\<lambda>t. is_live now t \<and> family_id t = fid) (tokens s)"

definition family_invariant :: "int \<Rightarrow> db \<Rightarrow> bool" where
  "family_invariant now s =
     (\<forall>t \<in> set (tokens s). length (live_in_family now s (family_id t)) \<le> 1)"

section \<open>UserRepository (repositories/user.py)\<close>

definition get_by_email :: "db \<Rightarrow> string \<Rightarrow> user option" where
  "get_by_email s em = find (\<lambda>u. email u = em) (users s)"

definition get_by_id :: "db \<Rightarrow> uuid \<Rightarrow> user option" where
  "get_by_id s i = find (\<lambda>u. u_id u = i) (users s)"

text \<open>
  \<open>session.flush()\<close> followed by \<open>session.refresh(user)\<close>: the modified object is written
  to the row with its primary key.
\<close>

definition flush :: "user \<Rightarrow> db \<Rightarrow> db" where
  "flush u s = s\<lparr>users := map (\<lambda>r. if u_id r = u_id u then u else r) (users s)\<rparr>"

text \<open>
  Modelled from the spec: \<open>User.increment_token_version\<close> is a method of the backend's
  \<open>User\<close> model (\<open>src/models/User.py\<close>), which is not among the sources.  The specification
  says that the version increases monotonically and that logout-all increments it.
\<close>

definition User_increment_token_version :: "user \<Rightarrow> user" where
  "User_increment_token_version u = u\<lparr>token_version := token_version u + 1\<rparr>"

definition update_password :: "db \<Rightarrow> user \<Rightarrow> string \<Rightarrow> user \<times> db" where
  "update_password s u hashed =
     (let u1 = u\<lparr>hashed_password := hashed\<rparr>;
          u2 = User_increment_token_version u1
      in (u2, flush u2 s))"

definition increment_token_version :: "db \<Rightarrow> user \<Rightarrow> user \<times> db" where
  "increment_token_version s u =
     (let u1 = User_increment_token_version u in (u1, flush u1 s))"

section \<open>RefreshTokenRepository\<close>

text \<open>
  Modelled from the spec: \<open>RefreshTokenRepository\<close> (\<open>src/repositories/refresh_token.py\<close>)
  is not among the sources.  Section 4.3 of the specification describes its operations:
  \<open>create\<close> inserts a new live row, \<open>get_by_hash\<close> looks a row up, \<open>revoke\<close> marks one row
  revoked, \<open>revoke_family\<close> marks every row of a family revoked, and
  \<open>revoke_all_for_user\<close> marks every live row of a user revoked and returns how many.
  A stored token is referred to by its position in the table.
\<close>

primrec index_of :: "('a \<Rightarrow> bool) \<Rightarrow> 'a list \<Rightarrow> nat option" where
  "index_of P [] = None"
| "index_of P (x # xs) = (if P x then Some 0 else map_option Suc (index_of P xs))"

text \<open>
  Modelled from the spec: \<open>create\<close> inserts a new live row (\<open>create_token\<close> of the absent
  repository).
\<close>

definition create_token ::
  "db \<Rightarrow> uuid \<Rightarrow> string \<Rightarrow> uuid \<Rightarrow> int \<Rightarrow> string option \<Rightarrow> string option \<Rightarrow> string option \<Rightarrow> db" where
  "create_token s uid thash fid exp dev_id dev_name ip =
     s\<lparr>tokens := tokens s @
        [\<lparr>rt_user_id = uid, token_hash = thash, family_id = fid, expires_at = exp,
          is_revoked = False, device_id = dev_id, device_name = dev_name, ip_address = ip\<rparr>]\<rparr>"

text \<open>
  Modelled from the spec: \<open>get_by_hash\<close> of the absent repository returns the stored record
  with the given hash, or nothing.
\<close>

definition get_by_hash :: "db \<Rightarrow> string \<Rightarrow> nat option" where
  "get_by_hash s h = index_of (\<lambda>t. token_hash t = h) (tokens s)"

text \<open>
  Modelled from the spec: \<open>revoke\<close> marks a single record revoked (\<open>revoke_token\<close> of the
  absent repository).
\<close>

definition revoke_token :: "db \<Rightarrow> nat \<Rightarrow> db" where
  "revoke_token s i =
     (if i < length (tokens s)
      then s\<lparr>tokens := (tokens s)[i := (tokens s ! i)\<lparr>is_revoked := True\<rparr>]\<rparr>
      else s)"

text \<open>
  Modelled from the spec: \<open>revoke_family\<close> of the absent repository marks every record
  sharing the family revoked.
\<close>

definition revoke_family :: "db \<Rightarrow> uuid \<Rightarrow> db" where
  "revoke_family s fid =
     s\<lparr>tokens := map (\<lambda>t. if family_id t = fid then t\<lparr>is_revoked := True\<rparr> else t) (tokens s)\<rparr>"

text \<open>
  Modelled from the spec: \<open>revoke_all_for_user\<close> marks every live record of a user revoked
  and returns the count revoked (\<open>revoke_all_user_tokens\<close> of the absent repository).
\<close>

definition revoke_all_user_tokens :: "int \<Rightarrow> db \<Rightarrow> uuid \<Rightarrow> nat \<times> db" where
  "revoke_all_user_tokens now s uid =
     (length (filter (\<lambda>t. rt_user_id t = uid \<and> is_live now t) (tokens s)),
      s\<lparr>tokens := map (\<lambda>t. if rt_user_id t = uid \<and> is_live now t
                             then t\<lparr>is_revoked := True\<rparr> else t) (tokens s)\<rparr>)"

section \<open>Token functions of the backend\<close>

text \<open>
  Modelled from the spec: the backend's \<open>src/core/security.py\<close> is not among the sources
  (the \<open>core/security.py\<close> above belongs to the example stack, whose
  \<open>create_access_token\<close> takes no token version).  Section 4.2 of the specification:
  \<open>hash_token\<close> is a deterministic one-way hash; \<open>issue_access_token\<close> builds the claims
  \<open>sub\<close>, \<open>type\<close>, \<open>iat\<close>, \<open>exp\<close>, \<open>ver\<close> and the extra claims; \<open>issue_refresh_token\<close> returns
  a random opaque value (an argument here), its hash, and an expiry computed from the
  refresh TTL.
\<close>

text \<open>
  Modelled from the spec: \<open>hash_token\<close> of the absent backend \<open>security.py\<close> is the
  deterministic one-way hash, a function of the environment.
\<close>

definition hash_token :: "env \<Rightarrow> string \<Rightarrow> string" where
  "hash_token e raw = digest e raw"

text \<open>
  Modelled from the spec: the claim set of \<open>issue_access_token(user_id, token_version,
  extra_claims?)\<close>, which is \<open>create_access_token(user_id, token_version)\<close> of the absent
  backend \<open>security.py\<close>: \<open>sub\<close>, \<open>type\<close>, \<open>iat\<close>, \<open>exp\<close>, \<open>ver\<close>, then the extra claims.
\<close>

definition access_token_payload_ver ::
  "env \<Rightarrow> int \<Rightarrow> uuid \<Rightarrow> int \<Rightarrow> claims option \<Rightarrow> claims" where
  "access_token_payload_ver e now user_id ver extra_claims =
     (let payload =
            [(''sub'', JStr user_id),
             (''type'', JStr TokenType_ACCESS),
             (''iat'', JTime now),
             (''exp'', JTime (now + 60 * ACCESS_TOKEN_EXPIRE_MINUTES (settings e))),
             (''ver'', JInt ver)]
      in case extra_claims of None \<Rightarrow> payload | Some ex \<Rightarrow> dict_update payload ex)"

text \<open>
  Modelled from the spec: \<open>create_access_token(user_id, token_version)\<close> of the absent
  backend \<open>security.py\<close> signs that claim set with the server secret and the configured
  symmetric algorithm.
\<close>

definition create_access_token_ver :: "env \<Rightarrow> int \<Rightarrow> uuid \<Rightarrow> int \<Rightarrow> claims option \<Rightarrow> string" where
  "create_access_token_ver e now user_id ver extra_claims =
     jwt_encode e (access_token_payload_ver e now user_id ver extra_claims)
       (SECRET_KEY (settings e)) (JWT_ALGORITHM (settings e))"

text \<open>
  Modelled from the spec: \<open>create_refresh_token\<close> of the absent backend \<open>security.py\<close>
  returns the raw value, its hash and the expiry, the clock plus the refresh TTL.
\<close>

definition create_refresh_token ::
  "env \<Rightarrow> int \<Rightarrow> string \<Rightarrow> uuid \<Rightarrow> uuid \<Rightarrow> string \<times> string \<times> int" where
  "create_refresh_token e now raw user_id fid =
     (raw, hash_token e raw, now + REFRESH_TOKEN_TTL (settings e))"

section \<open>Resolving the current user (core/dependencies.py)\<close>

definition get_current_user :: "env \<Rightarrow> db \<Rightarrow> string \<Rightarrow> exn + user" where
  "get_current_user e s token =
     (case decode_access_token e token of
        Inl msg \<Rightarrow> Inl (TokenError msg)
      | Inr payload \<Rightarrow>
          if map_of payload ''type'' \<noteq> Some (JStr TokenType_ACCESS)
          then Inl (TokenError ''Invalid token type'')
          else
            (case map_of payload ''sub'' of
               None \<Rightarrow> Inl (PyExc ''KeyError'')
             | Some (JStr sub) \<Rightarrow>
                 (case uuid_parse e sub of
                    None \<Rightarrow> Inl (PyExc ''ValueError'')
                  | Some uid \<Rightarrow>
                      (case get_by_id s uid of
                         None \<Rightarrow> Inl (UserNotFound uid)
                       | Some u \<Rightarrow> Inr u))
             | Some _ \<Rightarrow> Inl (PyExc ''AttributeError'')))"

definition get_current_active_user :: "env \<Rightarrow> db \<Rightarrow> string \<Rightarrow> exn + user" where
  "get_current_active_user e s token =
     (case get_current_user e s token of
        Inl err \<Rightarrow> Inl err
      | Inr u \<Rightarrow> if \<not> is_active u then Inl InactiveUser else Inr u)"

text \<open>
  Modelled from the spec: the backend's resolver (\<open>src/core/dependencies.py\<close>, from which
  the routes import \<open>CurrentUser\<close>) is not among the sources.  Section 4.2 of the
  specification: after decoding, the caller rejects the token if its \<open>type\<close> is not
  \<open>"access"\<close> and if its \<open>ver\<close> differs from the user's \<open>token_version\<close>.  The steps up
  to the user lookup are those of \<open>get_current_user\<close> above; the version check follows
  the lookup and raises \<open>TokenError\<close> with the default message of that class.
\<close>

definition get_current_user_ver :: "env \<Rightarrow> db \<Rightarrow> string \<Rightarrow> exn + user" where
  "get_current_user_ver e s token =
     (case decode_access_token e token of
        Inl msg \<Rightarrow> Inl (TokenError msg)
      | Inr payload \<Rightarrow>
          if map_of payload ''type'' \<noteq> Some (JStr TokenType_ACCESS)
          then Inl (TokenError ''Invalid token type'')
          else
            (case map_of payload ''sub'' of
               None \<Rightarrow> Inl (PyExc ''KeyError'')
             | Some (JStr sub) \<Rightarrow>
                 (case uuid_parse e sub of
                    None \<Rightarrow> Inl (PyExc ''ValueError'')
                  | Some uid \<Rightarrow>
                      (case get_by_id s uid of
                         None \<Rightarrow> Inl (UserNotFound uid)
                       | Some u \<Rightarrow>
                           if map_of payload ''ver'' \<noteq> Some (JInt (token_version u))
                           then Inl (TokenError ''Invalid or expired token'')
                           else Inr u))
             | Some _ \<Rightarrow> Inl (PyExc ''AttributeError'')))"

section \<open>AuthService (services/auth.py)\<close>

text \<open>
  What a call draws at random: the salt of a rehash, the UUID of a new family
  (\<open>uuid6.uuid7()\<close>) and the raw value of a new refresh token.
\<close>

record entropy =
  rnd_salt :: string
  rnd_family :: uuid
  rnd_token :: string

text \<open>
  A service call returns what it returns or raises, together with the database as the
  call leaves it: what was written before a \<open>raise\<close> is part of the result.  The
  argument \<open>now\<close> is the reading of the clock during the call.
\<close>

definition authenticate ::
  "env \<Rightarrow> int \<Rightarrow> entropy \<Rightarrow> db \<Rightarrow> string \<Rightarrow> string \<Rightarrow>
   string option \<Rightarrow> string option \<Rightarrow> string option \<Rightarrow> (exn + string \<times> string \<times> user) \<times> db" where
  "authenticate e now rnd s em password dev_id dev_name ip =
     (let usr = get_by_email s em;
          hashed = (case usr of None \<Rightarrow> None | Some u \<Rightarrow> Some (hashed_password u))
      in case verify_password_with_timing_safety e (rnd_salt rnd) password hashed of
           Inl err \<Rightarrow> (Inl err, s)
         | Inr (is_valid, new_hash) \<Rightarrow>
             (case usr of
                None \<Rightarrow> (Inl InvalidCredentials, s)
              | Some u \<Rightarrow>
                  if \<not> is_valid then (Inl InvalidCredentials, s)
                  else if \<not> is_active u then (Inl InvalidCredentials, s)
                  else
                    (let (u1, s1) =
                           (case new_hash of
                              None \<Rightarrow> (u, s)
                            | Some h \<Rightarrow> if h = [] then (u, s) else update_password s u h);
                         access_token = create_access_token_ver e now (u_id u1) (token_version u1) None;
                         fid = rnd_family rnd;
                         (raw_refresh, thash, exp) = create_refresh_token e now (rnd_token rnd) (u_id u1) fid;
                         s2 = create_token s1 (u_id u1) thash fid exp dev_id dev_name ip
                     in (Inr (access_token, raw_refresh, u1), s2))))"

definition refresh_tokens ::
  "env \<Rightarrow> int \<Rightarrow> entropy \<Rightarrow> db \<Rightarrow> string \<Rightarrow>
   string option \<Rightarrow> string option \<Rightarrow> string option \<Rightarrow> (exn + string) \<times> db" where
  "refresh_tokens e now rnd s refresh_token dev_id dev_name ip =
     (let thash = hash_token e refresh_token
      in case get_by_hash s thash of
           None \<Rightarrow> (Inl (TokenError ''Invalid refresh token''), s)
         | Some i \<Rightarrow>
             (let stored_token = tokens s ! i
              in if is_revoked stored_token
                 then (Inl TokenRevokedError, revoke_family s (family_id stored_token))
                 else if is_expired now stored_token
                 then (Inl (TokenError ''Refresh token expired''), s)
                 else
                   (case get_by_id s (rt_user_id stored_token) of
                      None \<Rightarrow> (Inl (TokenError ''User not found or inactive''), s)
                    | Some u \<Rightarrow>
                        if \<not> is_active u
                        then (Inl (TokenError ''User not found or inactive''), s)
                        else
                          (let s1 = revoke_token s i;
                               access_token = create_access_token_ver e now (u_id u) (token_version u) None;
                               (raw, new_hash, exp) =
                                  create_refresh_token e now (rnd_token rnd) (u_id u) (family_id stored_token);
                               s2 = create_token s1 (u_id u) new_hash (family_id stored_token) exp
                                      dev_id dev_name ip
                           in (Inr access_token, s2)))))"

definition logout :: "env \<Rightarrow> db \<Rightarrow> string \<Rightarrow> (exn + unit) \<times> db" where
  "logout e s refresh_token =
     (let thash = hash_token e refresh_token
      in case get_by_hash s thash of
           None \<Rightarrow> (Inr (), s)
         | Some i \<Rightarrow>
             if \<not> is_revoked (tokens s ! i) then (Inr (), revoke_token s i) else (Inr (), s))"

definition logout_all :: "int \<Rightarrow> db \<Rightarrow> user \<Rightarrow> (exn + nat) \<times> db" where
  "logout_all now s usr =
     (let (u1, s1) = increment_token_version s usr;
          (n, s2) = revoke_all_user_tokens now s1 (u_id u1)
      in (Inr n, s2))"

section \<open>Example data\<close>

text \<open>
  A toy hasher, a process environment and a database on which the theorems below are
  instantiated.  Strings are sequences of bytes; a lone surrogate of a Python string is
  the byte \<open>0xED\<close> followed by a byte from \<open>0xA0\<close> on, which no UTF-8 text contains, and a
  hasher cannot encode a password that has one.
\<close>

fun has_lone_surrogate :: "string \<Rightarrow> bool" where
  "has_lone_surrogate (a # b # cs) =
     ((a = CHR 0xED \<and> (160::nat) \<le> of_char b) \<or> has_lone_surrogate (b # cs))"
| "has_lone_surrogate cs = False"

text \<open>
  The toy hash of a password is \<open>$toy$\<close>, the salt (without \<open>$\<close>), \<open>$\<close> and the password.
  A string that does not start with \<open>$toy$\<close> is not a hash and makes the verifier raise
  \<open>UnknownHashError\<close>; a password with a lone surrogate makes it raise
  \<open>UnicodeEncodeError\<close>; otherwise the password is compared with the one in the hash.
\<close>

definition toy_verify :: "string \<Rightarrow> string \<Rightarrow> string + bool" where
  "toy_verify p h =
     (if take 5 h \<noteq> ''$toy$'' then Inl ''UnknownHashError''
      else if has_lone_surrogate p then Inl ''UnicodeEncodeError''
      else Inr (h = ''$toy$'' @ takeWhile (\<lambda>c. c \<noteq> CHR ''$'') (drop 5 h) @ ''$'' @ p))"

definition example_hasher :: password_hash where
  "example_hasher =
     \<lparr>ph_hash = (\<lambda>salt p. ''$toy$'' @ salt @ ''$'' @ p),
      ph_verify = toy_verify,
      ph_verify_and_update = (\<lambda>salt p h. map_sum id (\<lambda>b. (b, None)) (toy_verify p h))\<rparr>"

definition surrogate_password :: string where
  "surrogate_password = ''pass'' @ [CHR 0xED, CHR 0xA0, CHR 0x80] @ ''word''"

definition example_settings :: settings where
  "example_settings =
     \<lparr>SECRET_KEY = ''0123456789abcdef0123456789abcdef'', JWT_ALGORITHM = HS256,
      ACCESS_TOKEN_EXPIRE_MINUTES = 30, REFRESH_TOKEN_TTL = 604800\<rparr>"

definition alice_id :: uuid where
  "alice_id = ''0193a5c2-7b1e-7d3a-9f46-2c8e5b7a1d01''"

definition bob_id :: uuid where
  "bob_id = ''0193a5c2-7b1e-7d3a-9f46-2c8e5b7a1d02''"

definition family_a :: uuid where
  "family_a = ''0193a5c2-8000-7a11-b0c1-5d2e9f3a4b0a''"

definition family_b :: uuid where
  "family_b = ''0193a5c2-8000-7a11-b0c1-5d2e9f3a4b0b''"

definition family_c :: uuid where
  "family_c = ''0193a5c2-8000-7a11-b0c1-5d2e9f3a4b0c''"

definition example_claims :: claims where
  "example_claims =
     [(''sub'', JStr alice_id), (''type'', JStr ''access''), (''iat'', JTime 1000),
      (''exp'', JTime 2800), (''ver'', JInt 0)]"

definition fresh_claims :: claims where
  "fresh_claims =
     [(''sub'', JStr alice_id), (''type'', JStr ''access''), (''iat'', JTime 1000),
      (''exp'', JTime 2800), (''ver'', JInt 1)]"

definition example_env :: env where
  "example_env =
     \<lparr>settings = example_settings,
      password_hasher = example_hasher,
      import_salt = ''s0'',
      jwt_encode = (\<lambda>c key alg. concat (map fst c)),
      jwt_decode = (\<lambda>tok key algs req.
         if tok = ''stale'' then Inr example_claims
         else if tok = ''fresh'' then Inr fresh_claims
         else if tok = ''other'' then Inr (dict_set ''type'' (JStr ''refresh'') example_claims)
         else Inl ''Not enough segments''),
      uuid_parse = (\<lambda>s. if length s = 36 then Some s else None),
      digest = (\<lambda>raw. ''h:'' @ raw)\<rparr>"

definition alice :: user where
  "alice = \<lparr>u_id = alice_id, email = ''alice@example.com'', hashed_password = ''$toy$s1$Passw0rd!'',
             full_name = None, is_active = True, token_version = 1\<rparr>"

definition bob :: user where
  "bob = \<lparr>u_id = bob_id, email = ''bob@example.com'', hashed_password = ''$toy$s7$hunter22'',
           full_name = Some ''Bob'', is_active = False, token_version = 0\<rparr>"

definition example_tokens :: "refresh_token list" where
  "example_tokens =
     [\<lparr>rt_user_id = alice_id, token_hash = ''h:r0'', family_id = family_a, expires_at = 5000,
       is_revoked = True, device_id = None, device_name = None, ip_address = None\<rparr>,
      \<lparr>rt_user_id = alice_id, token_hash = ''h:r1'', family_id = family_a, expires_at = 6000,
       is_revoked = False, device_id = None, device_name = None, ip_address = None\<rparr>,
      \<lparr>rt_user_id = alice_id, token_hash = ''h:r2'', family_id = family_b, expires_at = 7000,
       is_revoked = False, device_id = None, device_name = Some ''phone'', ip_address = None\<rparr>,
      \<lparr>rt_user_id = bob_id, token_hash = ''h:r3'', family_id = family_c, expires_at = 7000,
       is_revoked = False, device_id = None, device_name = None, ip_address = None\<rparr>]"

definition example_db :: db where
  "example_db = \<lparr>users = [alice, bob], tokens = example_tokens\<rparr>"

definition example_entropy :: entropy where
  "example_entropy = \<lparr>rnd_salt = ''s9'', rnd_family = ''0193a5c2-8000-7a11-b0c1-5d2e9f3a4b0d'', rnd_token = ''r9''\<rparr>"

lemmas example_defs = example_env_def example_hasher_def toy_verify_def example_settings_def
  example_claims_def fresh_claims_def surrogate_password_def
  alice_id_def bob_id_def family_a_def family_b_def family_c_def alice_def bob_def example_tokens_def example_db_def example_entropy_def

section \<open>Properties of password verification\<close>

lemma verify_password_returns: "\<exists>r. verify_password e slt plain hashed = Inr r"
  by (cases "ph_verify_and_update (password_hasher e) slt plain hashed")
     (auto simp: verify_password_def)

lemma InvalidCredentials_fields:
  "InvalidCredentials = AppExc \<lparr>exc_type = ''InvalidCredentials'',
      message = ''Invalid email or password'', status_code = 401, extra = []\<rparr>"
  by (simp add: InvalidCredentials_def AuthenticationError_init_def BaseAppException_init_def)

lemma TokenError_fields:
  "TokenError msg = AppExc \<lparr>exc_type = ''TokenError'', message = msg, status_code = 401, extra = []\<rparr>"
  by (simp add: TokenError_def TokenError_init_def AuthenticationError_init_def
      BaseAppException_init_def)

lemma map_of_dict_set: "map_of (dict_set k v d) = (map_of d)(k \<mapsto> v)"
  by (induction d) (auto simp: fun_eq_iff)

lemma map_of_dict_update: "map_of (dict_update d other) = map_of d ++ map_of (rev other)"
  unfolding dict_update_def
proof (induction other arbitrary: d)
  case Nil
  then show ?case by simp
next
  case (Cons p ps)
  show ?case
    by (cases p) (simp add: Cons.IH map_of_dict_set map_add_def fun_eq_iff split: option.splits)
qed

lemma map_of_rev_distinct: "distinct (map fst xs) \<Longrightarrow> map_of (rev xs) = map_of xs"
proof (induction xs)
  case Nil
  then show ?case by simp
next
  case (Cons p ps)
  obtain k v where p: "p = (k, v)" by (cases p)
  from Cons.prems p have "map_of ps k = None"
    by (simp add: map_of_eq_None_iff)
  with Cons p show ?case
    by (auto simp: fun_eq_iff map_add_def split: option.splits)
qed

lemma index_of_SomeD: "index_of P xs = Some i \<Longrightarrow> i < length xs \<and> P (xs ! i)"
  by (induction xs arbitrary: i) (auto split: if_splits)

lemma index_of_update_same:
  "P y = P (xs ! i) \<Longrightarrow> index_of P (xs[i := y]) = index_of P xs"
proof (induction xs arbitrary: i)
  case Nil
  then show ?case by simp
next
  case (Cons x xs)
  then show ?case by (cases i) simp_all
qed

lemma TokenRevokedError_fields:
  "TokenRevokedError = AppExc \<lparr>exc_type = ''TokenRevokedError'', message = [], status_code = 401, extra = []\<rparr>"
  by (simp add: TokenRevokedError_def TokenError_init_def AuthenticationError_init_def
      BaseAppException_init_def)

lemma find_flush:
  "find (\<lambda>r. u_id r = u_id u) xs = Some u0 \<Longrightarrow>
   find (\<lambda>r. u_id r = u_id u) (map (\<lambda>r. if u_id r = u_id u then u else r) xs) = Some u"
  by (induction xs) (auto split: if_splits)

lemma filter_update_irrelevant:
  "\<not> P (xs ! i) \<Longrightarrow> \<not> P y \<Longrightarrow> filter P (xs[i := y]) = filter P xs"
proof (induction xs arbitrary: i)
  case Nil
  then show ?case by simp
next
  case (Cons x xs)
  then show ?case by (cases i) simp_all
qed

lemma filter_update_unique:
  "length (filter P xs) \<le> 1 \<Longrightarrow> i < length xs \<Longrightarrow> P (xs ! i) \<Longrightarrow> \<not> P y \<Longrightarrow>
   filter P (xs[i := y]) = []"
proof (induction xs arbitrary: i)
  case Nil
  then show ?case by simp
next
  case (Cons x xs)
  show ?case
  proof (cases i)
    case 0
    with Cons.prems show ?thesis by (simp split: if_splits)
  next
    case (Suc k)
    with Cons.prems have k: "k < length xs" "P (xs ! k)" by simp_all
    then have "filter P xs \<noteq> []"
      by (auto simp: filter_empty_conv)
    with Cons.prems(1) have "\<not> P x" by (auto split: if_splits)
    with Cons.prems(1) Cons.prems(4) k Suc Cons.IH [of k] show ?thesis by simp
  qed
qed

lemma refresh_tokens_success:
  assumes ok: "refresh_tokens e now rnd s refresh_token dev_id dev_name ip = (Inr access_token, s')"
  obtains i u where
    "get_by_hash s (hash_token e refresh_token) = Some i"
    "\<not> is_revoked (tokens s ! i)"
    "\<not> is_expired now (tokens s ! i)"
    "get_by_id s (rt_user_id (tokens s ! i)) = Some u"
    "is_active u"
    "s' = create_token (revoke_token s i) (u_id u) (hash_token e (rnd_token rnd))
            (family_id (tokens s ! i)) (now + REFRESH_TOKEN_TTL (settings e))
            dev_id dev_name ip"
    "access_token = create_access_token_ver e now (u_id u) (token_version u) None"
  using ok
  by (auto simp: refresh_tokens_def create_refresh_token_def Let_def
      split: option.splits if_splits)

text \<open>
  C10: \<open>verify_password\<close> never raises.  For every plaintext and every stored string it
  returns a pair, and when the hasher's \<open>verify_and_update\<close> raises (a malformed or
  unknown hash) the pair is \<open>(False, None)\<close>.
\<close>

theorem verify_password_total:
  "(\<exists>r. verify_password e slt plain hashed = Inr r) \<and>
   (\<forall>err. ph_verify_and_update (password_hasher e) slt plain hashed = Inl err \<longrightarrow>
      verify_password e slt plain hashed = Inr (False, None))"
  by (cases "ph_verify_and_update (password_hasher e) slt plain hashed")
     (auto simp: verify_password_def)

theorem verify_password_total_witness:
  "ph_verify_and_update (password_hasher example_env) ''s1'' ''Passw0rd!'' ''not-a-hash''
     = Inl ''UnknownHashError'' \<and>
   verify_password example_env ''s1'' ''Passw0rd!'' ''not-a-hash'' = Inr (False, None)"
proof -
  have raises: "ph_verify_and_update (password_hasher example_env) ''s1'' ''Passw0rd!'' ''not-a-hash''
     = Inl ''UnknownHashError''"
    by (simp add: example_env_def example_hasher_def toy_verify_def)
  with verify_password_total [of example_env "''s1''" "''Passw0rd!''" "''not-a-hash''"]
  show ?thesis by blast
qed



section \<open>Properties of login\<close>

text \<open>
  When the dummy verification returns, a login attempt fails with \<open>InvalidCredentials\<close>
  and an unchanged database in each of the three cases: no user has the email, the
  password is wrong, the user is inactive.
\<close>

lemma authenticate_invalid_credentials:
  assumes "(get_by_email s em = None \<and>
              (\<exists>b. ph_verify (password_hasher e) password (DUMMY_HASH e) = Inr b))
         \<or> (\<exists>u upgraded. get_by_email s em = Some u \<and>
              verify_password e (rnd_salt rnd) password (hashed_password u) = Inr (False, upgraded))
         \<or> (\<exists>u. get_by_email s em = Some u \<and> \<not> is_active u)"
  shows "authenticate e now rnd s em password dev_id dev_name ip = (Inl InvalidCredentials, s)"
proof -
  from assms consider
      (absent) b where "get_by_email s em = None"
        "ph_verify (password_hasher e) password (DUMMY_HASH e) = Inr b"
    | (wrong) u upgraded where "get_by_email s em = Some u"
        "verify_password e (rnd_salt rnd) password (hashed_password u) = Inr (False, upgraded)"
    | (inactive) u where "get_by_email s em = Some u" "\<not> is_active u"
    by blast
  then show ?thesis
  proof cases
    case absent
    then show ?thesis
      by (simp add: authenticate_def verify_password_with_timing_safety_def)
  next
    case wrong
    then show ?thesis
      by (simp add: authenticate_def verify_password_with_timing_safety_def)
  next
    case inactive
    obtain r where "verify_password e (rnd_salt rnd) password (hashed_password u) = Inr r"
      using verify_password_returns by blast
    with inactive show ?thesis
      by (cases r) (simp add: authenticate_def verify_password_with_timing_safety_def)
  qed
qed

text \<open>
  For every hasher: an exception of the dummy verification leaves \<open>authenticate\<close> as it
  is when no user has the email, and no exception of the hasher leaves it when a user has.
\<close>

lemma authenticate_unknown_email_propagates:
  assumes "get_by_email s em = None"
    and "ph_verify (password_hasher e) password (DUMMY_HASH e) = Inl err"
  shows "authenticate e now rnd s em password dev_id dev_name ip = (Inl (PyExc err), s)"
  using assms by (simp add: authenticate_def verify_password_with_timing_safety_def)

lemma authenticate_known_email_catches:
  assumes "get_by_email s em = Some u"
  shows "fst (authenticate e now rnd s em password dev_id dev_name ip) \<noteq> Inl (PyExc err)"
proof -
  obtain is_valid new_hash where
    r: "verify_password e (rnd_salt rnd) password (hashed_password u) = Inr (is_valid, new_hash)"
    using verify_password_returns [of e "rnd_salt rnd" password "hashed_password u"] by auto
  show ?thesis
  proof (cases "is_valid \<and> is_active u")
    case False
    with assms r show ?thesis
      by (auto simp: authenticate_def verify_password_with_timing_safety_def
          InvalidCredentials_def)
  next
    case True
    obtain u1 s1 where upd:
      "(case new_hash of None \<Rightarrow> (u, s)
        | Some h \<Rightarrow> if h = [] then (u, s) else update_password s u h) = (u1, s1)"
      by (cases "case new_hash of None \<Rightarrow> (u, s)
        | Some h \<Rightarrow> if h = [] then (u, s) else update_password s u h")
    with assms r True show ?thesis
      by (simp add: authenticate_def verify_password_with_timing_safety_def
          create_refresh_token_def Let_def)
  qed
qed

text \<open>
  C3: the error of a failed login is not the same for every cause.  With a password the
  hasher cannot encode (one with a lone surrogate), the attempt for an email that matches
  no user raises the hasher's \<open>UnicodeEncodeError\<close>, since the dummy verification runs
  outside any \<open>try\<close>; the attempt with the same password for a registered email raises
  \<open>InvalidCredentials\<close>, since \<open>verify_password\<close> catches the exception.
\<close>

theorem authenticate_error_depends_on_cause:
  "get_by_email example_db ''nobody@example.com'' = None \<and>
   authenticate example_env 1000 example_entropy example_db ''nobody@example.com''
       surrogate_password None None None
     = (Inl (PyExc ''UnicodeEncodeError''), example_db) \<and>
   get_by_email example_db ''alice@example.com'' = Some alice \<and>
   authenticate example_env 1000 example_entropy example_db ''alice@example.com''
       surrogate_password None None None
     = (Inl InvalidCredentials, example_db) \<and>
   InvalidCredentials \<noteq> PyExc ''UnicodeEncodeError''"
proof -
  have nobody: "get_by_email example_db ''nobody@example.com'' = None"
    by (simp add: get_by_email_def example_defs)
  have known: "get_by_email example_db ''alice@example.com'' = Some alice"
    by (simp add: get_by_email_def example_defs)
  have dummy: "ph_verify (password_hasher example_env) surrogate_password (DUMMY_HASH example_env)
      = Inl ''UnicodeEncodeError''"
    by (simp add: DUMMY_HASH_def example_env_def example_hasher_def toy_verify_def
        surrogate_password_def)
  have stored: "verify_password example_env (rnd_salt example_entropy) surrogate_password
      (hashed_password alice) = Inr (False, None)"
    by (simp add: verify_password_def example_env_def example_hasher_def toy_verify_def
        surrogate_password_def alice_def)
  have a: "authenticate example_env 1000 example_entropy example_db ''nobody@example.com''
       surrogate_password None None None = (Inl (PyExc ''UnicodeEncodeError''), example_db)"
    using nobody dummy by (simp add: authenticate_def verify_password_with_timing_safety_def)
  have b: "authenticate example_env 1000 example_entropy example_db ''alice@example.com''
       surrogate_password None None None = (Inl InvalidCredentials, example_db)"
    using known stored by (simp add: authenticate_def verify_password_with_timing_safety_def)
  have c: "InvalidCredentials \<noteq> PyExc ''UnicodeEncodeError''"
    by (simp add: InvalidCredentials_def)
  from nobody known a b c show ?thesis by simp
qed

section \<open>Properties of access tokens\<close>

text \<open>
  The example stack's \<open>create_access_token\<close> takes a user id and optional extra claims:
  its token encodes \<open>sub\<close>, \<open>type\<close>, \<open>iat\<close> and \<open>exp\<close>, updated with the extra claims.
\<close>

lemma create_access_token_claims:
  assumes "distinct (map fst (case extra_claims of None \<Rightarrow> [] | Some ex \<Rightarrow> ex))"
  shows "map_of (access_token_payload e now user_id extra_claims) =
           map_of [(''sub'', JStr user_id), (''type'', JStr ''access''), (''iat'', JTime now),
            (''exp'', JTime (now + 60 * ACCESS_TOKEN_EXPIRE_MINUTES (settings e)))]
           ++ map_of (case extra_claims of None \<Rightarrow> [] | Some ex \<Rightarrow> ex)"
proof (cases extra_claims)
  case None
  then show ?thesis
    by (simp add: access_token_payload_def TokenType_ACCESS_def fun_eq_iff)
next
  case (Some ex)
  with assms have "map_of (rev ex) = map_of ex"
    by (simp add: map_of_rev_distinct)
  with Some show ?thesis
    by (cases "ex = []")
       (simp_all add: access_token_payload_def TokenType_ACCESS_def map_of_dict_update Let_def)
qed

lemma authenticate_success:
  assumes "authenticate e now rnd s em password dev_id dev_name ip = (Inr (tok, raw, u), s')"
  shows "tok = create_access_token_ver e now (u_id u) (token_version u) None"
proof -
  let ?usr = "get_by_email s em"
  let ?hashed = "case ?usr of None \<Rightarrow> None | Some u \<Rightarrow> Some (hashed_password u)"
  obtain r where r: "verify_password_with_timing_safety e (rnd_salt rnd) password ?hashed = Inr r"
    using assms
    by (cases "verify_password_with_timing_safety e (rnd_salt rnd) password ?hashed")
       (simp_all add: authenticate_def)
  obtain is_valid new_hash where iv: "r = (is_valid, new_hash)"
    by (cases r)
  obtain u0 where u0: "?usr = Some u0"
    using assms r iv by (cases ?usr) (simp_all add: authenticate_def)
  from assms r iv u0 have ok: "is_valid" "is_active u0"
    by (simp_all add: authenticate_def split: if_splits)
  obtain u1 s1 where upd:
    "(case new_hash of None \<Rightarrow> (u0, s)
      | Some h \<Rightarrow> if h = [] then (u0, s) else update_password s u0 h) = (u1, s1)"
    by (cases "case new_hash of None \<Rightarrow> (u0, s)
      | Some h \<Rightarrow> if h = [] then (u0, s) else update_password s u0 h")
  from assms r iv u0 ok upd show ?thesis
    by (auto simp: authenticate_def create_refresh_token_def Let_def)
qed

text \<open>
  C4: the access token issued for a user id and a token version is the encoding, under the
  server secret and the configured HMAC algorithm, of exactly the claims \<open>sub\<close>, \<open>type =
  "access"\<close>, \<open>iat = now\<close>, \<open>exp = now + TTL\<close> and \<open>ver = token_version\<close>, updated with the
  extra claims.  Login and refresh issue their access token with no extra claims, for the
  user's id and current token version, so its \<open>ver\<close> is that version.
\<close>

theorem issued_access_token_claims:
  assumes "distinct (map fst (case extra_claims of None \<Rightarrow> [] | Some ex \<Rightarrow> ex))"
  shows "create_access_token_ver e now user_id ver extra_claims =
           jwt_encode e (access_token_payload_ver e now user_id ver extra_claims)
             (SECRET_KEY (settings e)) (JWT_ALGORITHM (settings e)) \<and>
         JWT_ALGORITHM (settings e) \<in> {HS256, HS384, HS512} \<and>
         map_of (access_token_payload_ver e now user_id ver extra_claims) =
           map_of [(''sub'', JStr user_id), (''type'', JStr ''access''), (''iat'', JTime now),
            (''exp'', JTime (now + 60 * ACCESS_TOKEN_EXPIRE_MINUTES (settings e))),
            (''ver'', JInt ver)]
           ++ map_of (case extra_claims of None \<Rightarrow> [] | Some ex \<Rightarrow> ex) \<and>
         access_token_payload_ver e now user_id ver None =
           [(''sub'', JStr user_id), (''type'', JStr ''access''), (''iat'', JTime now),
            (''exp'', JTime (now + 60 * ACCESS_TOKEN_EXPIRE_MINUTES (settings e))),
            (''ver'', JInt ver)] \<and>
         (\<forall>rnd s em password dev_id dev_name ip tok raw u s'.
            authenticate e now rnd s em password dev_id dev_name ip = (Inr (tok, raw, u), s') \<longrightarrow>
            tok = jwt_encode e (access_token_payload_ver e now (u_id u) (token_version u) None)
                    (SECRET_KEY (settings e)) (JWT_ALGORITHM (settings e))) \<and>
         (\<forall>rnd s refresh_token dev_id dev_name ip tok s'.
            refresh_tokens e now rnd s refresh_token dev_id dev_name ip = (Inr tok, s') \<longrightarrow>
            (\<exists>i u. get_by_hash s (hash_token e refresh_token) = Some i \<and>
               get_by_id s' (rt_user_id (tokens s ! i)) = Some u \<and>
               tok = jwt_encode e (access_token_payload_ver e now (u_id u) (token_version u) None)
                       (SECRET_KEY (settings e)) (JWT_ALGORITHM (settings e))))"
proof -
  have enc: "create_access_token_ver e now user_id ver extra_claims =
           jwt_encode e (access_token_payload_ver e now user_id ver extra_claims)
             (SECRET_KEY (settings e)) (JWT_ALGORITHM (settings e))"
    by (simp add: create_access_token_ver_def)
  have alg: "JWT_ALGORITHM (settings e) \<in> {HS256, HS384, HS512}"
    by (cases "JWT_ALGORITHM (settings e)") simp_all
  have payload: "map_of (access_token_payload_ver e now user_id ver extra_claims) =
           map_of [(''sub'', JStr user_id), (''type'', JStr ''access''), (''iat'', JTime now),
            (''exp'', JTime (now + 60 * ACCESS_TOKEN_EXPIRE_MINUTES (settings e))),
            (''ver'', JInt ver)]
           ++ map_of (case extra_claims of None \<Rightarrow> [] | Some ex \<Rightarrow> ex)"
  proof (cases extra_claims)
    case None
    then show ?thesis
      by (simp add: access_token_payload_ver_def TokenType_ACCESS_def)
  next
    case (Some ex)
    with assms have "map_of (rev ex) = map_of ex"
      by (simp add: map_of_rev_distinct)
    with Some show ?thesis
      by (simp add: access_token_payload_ver_def TokenType_ACCESS_def map_of_dict_update Let_def)
  qed
  have plain: "access_token_payload_ver e now user_id ver None =
           [(''sub'', JStr user_id), (''type'', JStr ''access''), (''iat'', JTime now),
            (''exp'', JTime (now + 60 * ACCESS_TOKEN_EXPIRE_MINUTES (settings e))),
            (''ver'', JInt ver)]"
    by (simp add: access_token_payload_ver_def TokenType_ACCESS_def)
  have login: "tok = jwt_encode e (access_token_payload_ver e now (u_id u) (token_version u) None)
                    (SECRET_KEY (settings e)) (JWT_ALGORITHM (settings e))"
    if "authenticate e now rnd s em password dev_id dev_name ip = (Inr (tok, raw, u), s')"
    for rnd s em password dev_id dev_name ip tok raw u s'
    using authenticate_success [OF that] by (simp add: create_access_token_ver_def)
  have refresh: "\<exists>i u. get_by_hash s (hash_token e refresh_token) = Some i \<and>
               get_by_id s' (rt_user_id (tokens s ! i)) = Some u \<and>
               tok = jwt_encode e (access_token_payload_ver e now (u_id u) (token_version u) None)
                       (SECRET_KEY (settings e)) (JWT_ALGORITHM (settings e))"
    if ok: "refresh_tokens e now rnd s refresh_token dev_id dev_name ip = (Inr tok, s')"
    for rnd s refresh_token dev_id dev_name ip tok s'
  proof -
    from ok obtain i u where
      found: "get_by_hash s (hash_token e refresh_token) = Some i"
      and nrev: "\<not> is_revoked (tokens s ! i)" and nexp: "\<not> is_expired now (tokens s ! i)"
      and usr: "get_by_id s (rt_user_id (tokens s ! i)) = Some u" and act: "is_active u"
      and s': "s' = create_token (revoke_token s i) (u_id u) (hash_token e (rnd_token rnd))
                    (family_id (tokens s ! i)) (now + REFRESH_TOKEN_TTL (settings e))
                    dev_id dev_name ip"
      and acc: "tok = create_access_token_ver e now (u_id u) (token_version u) None"
      by (rule refresh_tokens_success)
    have "users s' = users s"
      by (simp add: s' create_token_def revoke_token_def)
    with usr have "get_by_id s' (rt_user_id (tokens s ! i)) = Some u"
      by (simp add: get_by_id_def)
    with found acc show ?thesis
      by (auto simp: create_access_token_ver_def)
  qed
  from enc alg payload plain login refresh show ?thesis
    by blast
qed

theorem issued_access_token_claims_witness:
  "map_of (access_token_payload_ver example_env 1000 alice_id 1 (Some [(''role'', JStr ''admin'')]))
     = map_of [(''sub'', JStr alice_id), (''type'', JStr ''access''), (''iat'', JTime 1000),
        (''exp'', JTime 2800), (''ver'', JInt 1), (''role'', JStr ''admin'')] \<and>
   fst (authenticate example_env 1000 example_entropy example_db ''alice@example.com''
          ''Passw0rd!'' None None None) =
     Inr (jwt_encode example_env
            [(''sub'', JStr alice_id), (''type'', JStr ''access''), (''iat'', JTime 1000),
             (''exp'', JTime 2800), (''ver'', JInt (token_version alice))]
            (SECRET_KEY (settings example_env)) (JWT_ALGORITHM (settings example_env)),
          ''r9'', alice)"
proof -
  have d: "distinct (map fst (case Some [(''role'', JStr ''admin'')] of
                                None \<Rightarrow> [] | Some ex \<Rightarrow> ex))"
    by simp
  note th = issued_access_token_claims [OF d, of example_env 1000]
  have ttl: "(1000::int) + 60 * ACCESS_TOKEN_EXPIRE_MINUTES (settings example_env) = 2800"
    by (simp add: example_env_def example_settings_def)
  from th [of alice_id 1]
  have a: "map_of (access_token_payload_ver example_env 1000 alice_id 1 (Some [(''role'', JStr ''admin'')]))
     = map_of [(''sub'', JStr alice_id), (''type'', JStr ''access''), (''iat'', JTime 1000),
        (''exp'', JTime 2800), (''ver'', JInt 1), (''role'', JStr ''admin'')]"
    by (simp add: ttl fun_eq_iff)
  obtain tok s' where login: "authenticate example_env 1000 example_entropy example_db
      ''alice@example.com'' ''Passw0rd!'' None None None = (Inr (tok, ''r9'', alice), s')"
    by (simp add: authenticate_def verify_password_with_timing_safety_def verify_password_def
        get_by_email_def create_refresh_token_def example_defs)
  from th [of "u_id alice" "token_version alice"] login
  have "tok = jwt_encode example_env
      (access_token_payload_ver example_env 1000 (u_id alice) (token_version alice) None)
      (SECRET_KEY (settings example_env)) (JWT_ALGORITHM (settings example_env))"
    by blast
  moreover from th [of "u_id alice" "token_version alice"]
  have "access_token_payload_ver example_env 1000 (u_id alice) (token_version alice) None =
      [(''sub'', JStr alice_id), (''type'', JStr ''access''), (''iat'', JTime 1000),
       (''exp'', JTime 2800), (''ver'', JInt (token_version alice))]"
    by (simp add: ttl alice_def)
  ultimately show ?thesis using a login by simp
qed

section \<open>Properties of the current-user resolution\<close>

text \<open>
  C5: a decoded token whose \<open>type\<close> claim is not \<open>"access"\<close> is rejected with a
  \<open>TokenError\<close>, by the example stack's resolver and by the backend's; a decoded access
  token whose \<open>ver\<close> claim differs from the token version of the user it names is rejected
  with a \<open>TokenError\<close> by the backend's resolver, and one whose \<open>ver\<close> equals that version
  resolves to the user.  A \<open>TokenError\<close> has status 401.
\<close>

theorem get_current_user_rejects_type_and_version:
  assumes "decode_access_token e token = Inr payload"
  shows "(map_of payload ''type'' \<noteq> Some (JStr ''access'') \<longrightarrow>
            get_current_user e s token = Inl (TokenError ''Invalid token type'') \<and>
            get_current_user_ver e s token = Inl (TokenError ''Invalid token type'')) \<and>
         (\<forall>sub uid u. map_of payload ''type'' = Some (JStr ''access'') \<and>
            map_of payload ''sub'' = Some (JStr sub) \<and> uuid_parse e sub = Some uid \<and>
            get_by_id s uid = Some u \<and>
            map_of payload ''ver'' \<noteq> Some (JInt (token_version u)) \<longrightarrow>
            get_current_user_ver e s token = Inl (TokenError ''Invalid or expired token'')) \<and>
         (\<forall>sub uid u. map_of payload ''type'' = Some (JStr ''access'') \<and>
            map_of payload ''sub'' = Some (JStr sub) \<and> uuid_parse e sub = Some uid \<and>
            get_by_id s uid = Some u \<and>
            map_of payload ''ver'' = Some (JInt (token_version u)) \<longrightarrow>
            get_current_user_ver e s token = Inr u) \<and>
         (\<forall>msg. TokenError msg =
            AppExc \<lparr>exc_type = ''TokenError'', message = msg, status_code = 401, extra = []\<rparr>)"
  using assms
  by (simp add: get_current_user_def get_current_user_ver_def TokenType_ACCESS_def
      TokenError_fields)

theorem get_current_user_rejects_type_and_version_witness:
  "get_current_user example_env example_db ''other'' = Inl (TokenError ''Invalid token type'') \<and>
   get_current_user_ver example_env example_db ''other'' = Inl (TokenError ''Invalid token type'') \<and>
   get_current_user_ver example_env example_db ''stale'' = Inl (TokenError ''Invalid or expired token'') \<and>
   get_current_user_ver example_env example_db ''fresh'' = Inr alice"
proof -
  have other: "decode_access_token example_env ''other'' =
     Inr [(''sub'', JStr alice_id), (''type'', JStr ''refresh''), (''iat'', JTime 1000),
          (''exp'', JTime 2800), (''ver'', JInt 0)]"
    by (simp add: decode_access_token_def example_env_def example_claims_def)
  have stale: "decode_access_token example_env ''stale'' =
     Inr [(''sub'', JStr alice_id), (''type'', JStr ''access''), (''iat'', JTime 1000),
          (''exp'', JTime 2800), (''ver'', JInt 0)]"
    by (simp add: decode_access_token_def example_env_def example_claims_def)
  have fresh: "decode_access_token example_env ''fresh'' =
     Inr [(''sub'', JStr alice_id), (''type'', JStr ''access''), (''iat'', JTime 1000),
          (''exp'', JTime 2800), (''ver'', JInt 1)]"
    by (simp add: decode_access_token_def example_env_def fresh_claims_def)
  have usr: "uuid_parse example_env alice_id = Some alice_id"
    "get_by_id example_db alice_id = Some alice" "token_version alice = 1"
    by (simp_all add: get_by_id_def example_defs)
  from get_current_user_rejects_type_and_version [OF other, of example_db]
  have a: "get_current_user example_env example_db ''other'' = Inl (TokenError ''Invalid token type'')"
    "get_current_user_ver example_env example_db ''other'' = Inl (TokenError ''Invalid token type'')"
    by simp_all
  from get_current_user_rejects_type_and_version [OF stale, of example_db] usr
  have b: "get_current_user_ver example_env example_db ''stale'' =
      Inl (TokenError ''Invalid or expired token'')"
    by simp
  from get_current_user_rejects_type_and_version [OF fresh, of example_db] usr
  have c: "get_current_user_ver example_env example_db ''fresh'' = Inr alice"
    by simp
  from a b c show ?thesis by simp
qed

section \<open>Properties of refresh and logout\<close>

text \<open>
  C1: replay detection.  When the presented refresh token hashes to a stored record that
  is already revoked, \<open>refresh_tokens\<close> raises \<open>TokenRevokedError\<close> and leaves the
  database with every token of that record's family revoked: no row is added, rows of
  other families and the users are unchanged, and a later refresh with any token of the
  family fails with \<open>TokenRevokedError\<close> too.
\<close>

theorem refresh_replay_revokes_family:
  assumes found: "get_by_hash s (hash_token e refresh_token) = Some i"
    and revoked: "is_revoked (tokens s ! i)"
  shows "\<exists>s'. refresh_tokens e now rnd s refresh_token dev_id dev_name ip = (Inl TokenRevokedError, s') \<and>
      s' = revoke_family s (family_id (tokens s ! i)) \<and>
      users s' = users s \<and>
      length (tokens s') = length (tokens s) \<and>
      (\<forall>j < length (tokens s).
          tokens s' ! j = (if family_id (tokens s ! j) = family_id (tokens s ! i)
                           then (tokens s ! j)\<lparr>is_revoked := True\<rparr> else tokens s ! j)) \<and>
      (\<forall>t \<in> set (tokens s'). family_id t = family_id (tokens s ! i) \<longrightarrow> is_revoked t) \<and>
      (\<forall>raw k now' rnd' d1 d2 d3. get_by_hash s' (hash_token e raw) = Some k \<and>
          family_id (tokens s' ! k) = family_id (tokens s ! i) \<longrightarrow>
          fst (refresh_tokens e now' rnd' s' raw d1 d2 d3) = Inl TokenRevokedError)"
proof -
  let ?fid = "family_id (tokens s ! i)"
  let ?s' = "revoke_family s ?fid"
  have res: "refresh_tokens e now rnd s refresh_token dev_id dev_name ip = (Inl TokenRevokedError, ?s')"
    using found revoked by (simp add: refresh_tokens_def)
  have all: "\<forall>t \<in> set (tokens ?s'). family_id t = ?fid \<longrightarrow> is_revoked t"
    by (auto simp: revoke_family_def)
  have later: "fst (refresh_tokens e now' rnd' ?s' raw d1 d2 d3) = Inl TokenRevokedError"
    if k: "get_by_hash ?s' (hash_token e raw) = Some k" and fam: "family_id (tokens ?s' ! k) = ?fid"
    for raw k now' rnd' d1 d2 d3
  proof -
    from k have "k < length (tokens ?s')"
      by (auto simp: get_by_hash_def dest: index_of_SomeD)
    then have "tokens ?s' ! k \<in> set (tokens ?s')" by simp
    with all fam have "is_revoked (tokens ?s' ! k)" by blast
    with k show ?thesis by (simp add: refresh_tokens_def)
  qed
  have len: "length (tokens ?s') = length (tokens s)" "users ?s' = users s"
    by (simp_all add: revoke_family_def)
  have rows: "\<forall>j < length (tokens s).
          tokens ?s' ! j = (if family_id (tokens s ! j) = ?fid
                           then (tokens s ! j)\<lparr>is_revoked := True\<rparr> else tokens s ! j)"
    by (simp add: revoke_family_def)
  from res all later len rows show ?thesis
    by blast
qed

theorem refresh_replay_revokes_family_witness:
  "refresh_tokens example_env 1000 example_entropy example_db ''r0'' None None None
     = (Inl TokenRevokedError, revoke_family example_db family_a) \<and>
   is_revoked (tokens (revoke_family example_db family_a) ! 1) \<and>
   tokens (revoke_family example_db family_a) ! 2 = tokens example_db ! 2 \<and>
   fst (refresh_tokens example_env 1001 example_entropy (revoke_family example_db family_a) ''r1''
          None None None) = Inl TokenRevokedError"
proof -
  have found: "get_by_hash example_db (hash_token example_env ''r0'') = Some 0"
    by (simp add: get_by_hash_def hash_token_def example_defs)
  have revoked: "is_revoked (tokens example_db ! 0)"
    by (simp add: example_defs)
  have fam: "family_id (tokens example_db ! 0) = family_a"
    by (simp add: example_db_def example_tokens_def)
  have succ: "get_by_hash (revoke_family example_db family_a) (hash_token example_env ''r1'') = Some 1 \<and>
      family_id (tokens (revoke_family example_db family_a) ! 1) = family_a"
    by (simp add: get_by_hash_def hash_token_def revoke_family_def example_defs)
  have rows: "family_id (tokens example_db ! 1) = family_a \<and> family_id (tokens example_db ! 2) \<noteq> family_a
      \<and> length (tokens example_db) = 4"
    by (simp add: example_defs)
  from refresh_replay_revokes_family [OF found revoked, of 1000 example_entropy None None None]
  have th: "refresh_tokens example_env 1000 example_entropy example_db ''r0'' None None None
       = (Inl TokenRevokedError, revoke_family example_db family_a)"
    "\<forall>j < length (tokens example_db).
          tokens (revoke_family example_db family_a) ! j = (if family_id (tokens example_db ! j) = family_a
                           then (tokens example_db ! j)\<lparr>is_revoked := True\<rparr> else tokens example_db ! j)"
    "\<forall>raw k now' rnd' d1 d2 d3. get_by_hash (revoke_family example_db family_a) (hash_token example_env raw) = Some k \<and>
          family_id (tokens (revoke_family example_db family_a) ! k) = family_a \<longrightarrow>
          fst (refresh_tokens example_env now' rnd' (revoke_family example_db family_a) raw d1 d2 d3) = Inl TokenRevokedError"
    unfolding fam by blast+
  from th(2) rows have r1: "is_revoked (tokens (revoke_family example_db family_a) ! 1)"
    and r2: "tokens (revoke_family example_db family_a) ! 2 = tokens example_db ! 2"
    by simp_all
  from th(3) succ
  have r3: "fst (refresh_tokens example_env 1001 example_entropy (revoke_family example_db family_a) ''r1''
          None None None) = Inl TokenRevokedError"
    by blast
  from th(1) r1 r2 r3 show ?thesis by simp
qed

text \<open>
  C7: \<open>logout\<close> is idempotent.  For every raw refresh token it returns without raising,
  whether the record is live (it is revoked), already revoked or absent (nothing changes),
  and a second call with the same token returns without raising and leaves the database
  as the first call left it.
\<close>

theorem logout_idempotent:
  "\<exists>s1. logout e s refresh_token = (Inr (), s1) \<and>
        logout e s1 refresh_token = (Inr (), s1) \<and>
        s1 = (case get_by_hash s (hash_token e refresh_token) of
                None \<Rightarrow> s
              | Some i \<Rightarrow> if is_revoked (tokens s ! i) then s else revoke_token s i)"
proof (cases "get_by_hash s (hash_token e refresh_token)")
  case None
  then show ?thesis by (simp add: logout_def)
next
  case (Some i)
  then have i: "i < length (tokens s)"
    by (auto simp: get_by_hash_def dest: index_of_SomeD)
  show ?thesis
  proof (cases "is_revoked (tokens s ! i)")
    case True
    with Some show ?thesis by (simp add: logout_def)
  next
    case False
    have again: "get_by_hash (revoke_token s i) (hash_token e refresh_token) = Some i"
      using Some i by (simp add: get_by_hash_def revoke_token_def index_of_update_same)
    have revoked: "is_revoked (tokens (revoke_token s i) ! i)"
      using i by (simp add: revoke_token_def)
    from Some False again revoked show ?thesis by (simp add: logout_def)
  qed
qed

theorem logout_idempotent_witness:
  "logout example_env example_db ''r1'' = (Inr (), revoke_token example_db 1) \<and>
   logout example_env (revoke_token example_db 1) ''r1'' = (Inr (), revoke_token example_db 1) \<and>
   logout example_env example_db ''r0'' = (Inr (), example_db) \<and>
   logout example_env example_db ''unknown'' = (Inr (), example_db)"
proof -
  have live: "get_by_hash example_db (hash_token example_env ''r1'') = Some 1 \<and>
              \<not> is_revoked (tokens example_db ! 1)"
    by (simp add: get_by_hash_def hash_token_def example_defs)
  have dead: "get_by_hash example_db (hash_token example_env ''r0'') = Some 0 \<and>
              is_revoked (tokens example_db ! 0)"
    by (simp add: get_by_hash_def hash_token_def example_defs)
  have absent: "get_by_hash example_db (hash_token example_env ''unknown'') = None"
    by (simp add: get_by_hash_def hash_token_def example_defs)
  from logout_idempotent [of example_env example_db "''r1''"] live
  have a: "logout example_env example_db ''r1'' = (Inr (), revoke_token example_db 1) \<and>
           logout example_env (revoke_token example_db 1) ''r1'' = (Inr (), revoke_token example_db 1)"
    by auto
  from logout_idempotent [of example_env example_db "''r0''"] dead
  have b: "logout example_env example_db ''r0'' = (Inr (), example_db)"
    by auto
  from logout_idempotent [of example_env example_db "''unknown''"] absent
  have c: "logout example_env example_db ''unknown'' = (Inr (), example_db)"
    by auto
  from a b c show ?thesis by simp
qed

lemma get_current_user_ver_accepts:
  assumes "decode_access_token e tok = Inr payload"
    and "map_of payload ''type'' = Some (JStr ''access'')"
    and "map_of payload ''sub'' = Some (JStr sub)"
    and "uuid_parse e sub = Some uid"
    and "get_by_id s uid = Some u"
  shows "get_current_user_ver e s tok =
           (if map_of payload ''ver'' = Some (JInt (token_version u)) then Inr u
            else Inl (TokenError ''Invalid or expired token''))"
  using assms by (simp add: get_current_user_ver_def TokenType_ACCESS_def)

text \<open>
  C6: \<open>logout_all\<close> for a stored user with N live refresh tokens returns N, raises
  nothing, stores the user with its token version incremented by one, and leaves no live
  refresh token of that user; each of the N live rows is marked revoked and every other
  row is unchanged.  Every access token of the user that bears the old version, accepted
  by the version check before the call, is rejected by it with a \<open>TokenError\<close> after.
\<close>

theorem logout_all_increments_and_revokes:
  assumes stored: "get_by_id s (u_id usr) = Some usr"
  shows "\<exists>s'. logout_all now s usr =
            (Inr (length (filter (\<lambda>t. rt_user_id t = u_id usr \<and> is_live now t) (tokens s))), s') \<and>
      get_by_id s' (u_id usr) = Some (usr\<lparr>token_version := token_version usr + 1\<rparr>) \<and>
      token_version usr < token_version (usr\<lparr>token_version := token_version usr + 1\<rparr>) \<and>
      (\<forall>t \<in> set (tokens s'). rt_user_id t = u_id usr \<longrightarrow> \<not> is_live now t) \<and>
      length (tokens s') = length (tokens s) \<and>
      (\<forall>j < length (tokens s).
          tokens s' ! j = (if rt_user_id (tokens s ! j) = u_id usr \<and> is_live now (tokens s ! j)
                           then (tokens s ! j)\<lparr>is_revoked := True\<rparr> else tokens s ! j)) \<and>
      (\<forall>e tok payload sub. decode_access_token e tok = Inr payload \<and>
          map_of payload ''type'' = Some (JStr ''access'') \<and>
          map_of payload ''sub'' = Some (JStr sub) \<and> uuid_parse e sub = Some (u_id usr) \<and>
          map_of payload ''ver'' = Some (JInt (token_version usr)) \<longrightarrow>
          get_current_user_ver e s tok = Inr usr \<and>
          get_current_user_ver e s' tok = Inl (TokenError ''Invalid or expired token''))"
proof -
  let ?u1 = "usr\<lparr>token_version := token_version usr + 1\<rparr>"
  let ?s1 = "flush ?u1 s"
  let ?s' = "snd (revoke_all_user_tokens now ?s1 (u_id usr))"
  have toks: "tokens ?s1 = tokens s"
    by (simp add: flush_def)
  have res: "logout_all now s usr =
            (Inr (length (filter (\<lambda>t. rt_user_id t = u_id usr \<and> is_live now t) (tokens s))), ?s')"
    by (simp add: logout_all_def increment_token_version_def User_increment_token_version_def
        revoke_all_user_tokens_def Let_def toks)
  have usr': "get_by_id ?s' (u_id usr) = Some ?u1"
    using stored find_flush [of ?u1 "users s" usr]
    by (simp add: get_by_id_def revoke_all_user_tokens_def flush_def)
  have dead: "\<forall>t \<in> set (tokens ?s'). rt_user_id t = u_id usr \<longrightarrow> \<not> is_live now t"
    by (auto simp: revoke_all_user_tokens_def toks is_live_def)
  have len: "length (tokens ?s') = length (tokens s)"
    by (simp add: revoke_all_user_tokens_def toks)
  have rows: "\<forall>j < length (tokens s).
          tokens ?s' ! j = (if rt_user_id (tokens s ! j) = u_id usr \<and> is_live now (tokens s ! j)
                           then (tokens s ! j)\<lparr>is_revoked := True\<rparr> else tokens s ! j)"
    by (simp add: revoke_all_user_tokens_def toks)
  have incr: "token_version usr < token_version ?u1" by simp
  have access: "get_current_user_ver e s tok = Inr usr \<and>
          get_current_user_ver e ?s' tok = Inl (TokenError ''Invalid or expired token'')"
    if d: "decode_access_token e tok = Inr payload"
      and ty: "map_of payload ''type'' = Some (JStr ''access'')"
      and sb: "map_of payload ''sub'' = Some (JStr sub)"
      and pu: "uuid_parse e sub = Some (u_id usr)"
      and ver: "map_of payload ''ver'' = Some (JInt (token_version usr))"
    for e tok payload sub
  proof -
    from get_current_user_ver_accepts [OF d ty sb pu stored] ver
    have before: "get_current_user_ver e s tok = Inr usr" by simp
    from get_current_user_ver_accepts [OF d ty sb pu usr'] ver
    have after: "get_current_user_ver e ?s' tok = Inl (TokenError ''Invalid or expired token'')"
      by simp
    from before after show ?thesis by simp
  qed
  from res usr' dead len rows incr access show ?thesis by blast
qed

theorem logout_all_increments_and_revokes_witness:
  "logout_all 1000 example_db alice =
      (Inr 2, snd (revoke_all_user_tokens 1000 (flush (alice\<lparr>token_version := 2\<rparr>) example_db) alice_id)) \<and>
   get_by_id (snd (logout_all 1000 example_db alice)) alice_id = Some (alice\<lparr>token_version := 2\<rparr>) \<and>
   get_current_user_ver example_env example_db ''fresh'' = Inr alice \<and>
   get_current_user_ver example_env (snd (logout_all 1000 example_db alice)) ''fresh'' =
     Inl (TokenError ''Invalid or expired token'')"
proof -
  have stored: "get_by_id example_db (u_id alice) = Some alice"
    by (simp add: get_by_id_def example_defs)
  have n: "length (filter (\<lambda>t. rt_user_id t = alice_id \<and> is_live 1000 t) (tokens example_db)) = 2"
    by (simp add: is_live_def is_expired_def example_defs)
  have v: "token_version alice + 1 = 2" "u_id alice = alice_id"
    by (simp_all add: alice_def)
  have fresh: "decode_access_token example_env ''fresh'' = Inr fresh_claims \<and>
      map_of fresh_claims ''type'' = Some (JStr ''access'') \<and>
      map_of fresh_claims ''sub'' = Some (JStr alice_id) \<and>
      uuid_parse example_env alice_id = Some alice_id \<and>
      map_of fresh_claims ''ver'' = Some (JInt (token_version alice))"
    by (simp add: decode_access_token_def example_env_def fresh_claims_def alice_def alice_id_def)
  from logout_all_increments_and_revokes [OF stored, of 1000]
  obtain s' where s': "logout_all 1000 example_db alice = (Inr 2, s')"
     "get_by_id s' alice_id = Some (alice\<lparr>token_version := 2\<rparr>)"
     "\<forall>e tok payload sub. decode_access_token e tok = Inr payload \<and>
          map_of payload ''type'' = Some (JStr ''access'') \<and>
          map_of payload ''sub'' = Some (JStr sub) \<and> uuid_parse e sub = Some alice_id \<and>
          map_of payload ''ver'' = Some (JInt (token_version alice)) \<longrightarrow>
          get_current_user_ver e example_db tok = Inr alice \<and>
          get_current_user_ver e s' tok = Inl (TokenError ''Invalid or expired token'')"
    unfolding v n by blast
  from s'(3) fresh
  have acc: "get_current_user_ver example_env example_db ''fresh'' = Inr alice \<and>
      get_current_user_ver example_env s' ''fresh'' = Inl (TokenError ''Invalid or expired token'')"
    by blast
  have "s' = snd (revoke_all_user_tokens 1000 (flush (alice\<lparr>token_version := 2\<rparr>) example_db) alice_id)"
    using s'(1) v
    by (simp add: logout_all_def increment_token_version_def User_increment_token_version_def
        Let_def split: prod.splits)
  with s'(1,2) acc show ?thesis by simp
qed

text \<open>
  C2: rotation.  In a database where every family has at most one live token, and with a
  positive refresh TTL, a refresh that succeeds was given a live token; it marks that row
  revoked and appends exactly one row, which is live, carries the family of the presented
  token and the hash of the new raw value.  Afterwards the new row is the only live token
  of its family, and every family still has at most one live token.
\<close>

theorem refresh_rotation_preserves_family_invariant:
  assumes inv: "family_invariant now s"
    and ttl: "0 < REFRESH_TOKEN_TTL (settings e)"
    and ok: "refresh_tokens e now rnd s refresh_token dev_id dev_name ip = (Inr access_token, s')"
  shows "\<exists>i new. get_by_hash s (hash_token e refresh_token) = Some i \<and>
      i < length (tokens s) \<and> is_live now (tokens s ! i) \<and>
      tokens s' = (tokens s)[i := (tokens s ! i)\<lparr>is_revoked := True\<rparr>] @ [new] \<and>
      is_revoked (tokens s' ! i) \<and>
      is_live now new \<and>
      family_id new = family_id (tokens s ! i) \<and>
      token_hash new = hash_token e (rnd_token rnd) \<and>
      live_in_family now s' (family_id new) = [new] \<and>
      family_invariant now s'"
proof -
  from ok obtain i u where
    found: "get_by_hash s (hash_token e refresh_token) = Some i"
    and nrev: "\<not> is_revoked (tokens s ! i)" and nexp: "\<not> is_expired now (tokens s ! i)"
    and usr: "get_by_id s (rt_user_id (tokens s ! i)) = Some u" and act: "is_active u"
    and s': "s' = create_token (revoke_token s i) (u_id u) (hash_token e (rnd_token rnd))
                  (family_id (tokens s ! i)) (now + REFRESH_TOKEN_TTL (settings e))
                  dev_id dev_name ip"
    and acc: "access_token = create_access_token_ver e now (u_id u) (token_version u) None"
    by (rule refresh_tokens_success)
  define ts where "ts = tokens s"
  define fid where "fid = family_id (ts ! i)"
  define t' where "t' = (ts ! i)\<lparr>is_revoked := True\<rparr>"
  define new where "new = \<lparr>rt_user_id = u_id u, token_hash = hash_token e (rnd_token rnd),
      family_id = fid, expires_at = now + REFRESH_TOKEN_TTL (settings e), is_revoked = False,
      device_id = dev_id, device_name = dev_name, ip_address = ip\<rparr>"
  define P where "P = (\<lambda>g t. is_live now t \<and> family_id t = g)"
  from found have i: "i < length ts"
    by (auto simp: ts_def get_by_hash_def dest: index_of_SomeD)
  from nrev nexp have live: "is_live now (ts ! i)"
    by (simp add: is_live_def ts_def)
  have toks: "tokens s' = ts[i := t'] @ [new]"
    using i by (simp add: s' create_token_def revoke_token_def ts_def t'_def new_def fid_def)
  have rev_i: "is_revoked (tokens s' ! i)"
    using i by (simp add: toks nth_append t'_def)
  have new_live: "is_live now new"
    using ttl by (simp add: is_live_def is_expired_def new_def)
  have new_fam: "family_id new = fid"
    by (simp add: new_def)
  have new_hash: "token_hash new = hash_token e (rnd_token rnd)"
    by (simp add: new_def)
  have t'_fam: "family_id t' = fid"
    by (simp add: t'_def fid_def)
  have t'_dead: "\<not> is_live now t'"
    by (simp add: is_live_def t'_def)
  have inv_ts: "length (filter (P (family_id x)) ts) \<le> 1" if "x \<in> set ts" for x
    using inv that by (simp add: family_invariant_def live_in_family_def ts_def P_def)
  have lif: "live_in_family now s' g = filter (P g) (ts[i := t']) @ filter (P g) [new]" for g
    by (simp add: live_in_family_def toks P_def)
  from i have "length (filter (P fid) ts) \<le> 1"
    using inv_ts [of "ts ! i"] by (simp add: fid_def)
  moreover have "P fid (ts ! i)"
    using live by (simp add: P_def fid_def)
  moreover have "\<not> P fid t'"
    using t'_dead by (simp add: P_def)
  ultimately have own: "filter (P fid) (ts[i := t']) = []"
    using i by (intro filter_update_unique)
  have fam: "live_in_family now s' fid = [new]"
    using own new_live new_fam by (simp add: lif P_def)
  have other: "live_in_family now s' g = filter (P g) ts" if g: "g \<noteq> fid" for g
  proof -
    from g have "\<not> P g (ts ! i)" by (simp add: P_def fid_def)
    moreover from g t'_fam have "\<not> P g t'" by (simp add: P_def)
    ultimately have "filter (P g) (ts[i := t']) = filter (P g) ts"
      by (rule filter_update_irrelevant)
    moreover from g new_fam have "\<not> P g new" by (simp add: P_def)
    ultimately show ?thesis by (simp add: lif)
  qed
  have inv': "family_invariant now s'"
    unfolding family_invariant_def
  proof
    fix x assume x: "x \<in> set (tokens s')"
    show "length (live_in_family now s' (family_id x)) \<le> 1"
    proof (cases "family_id x = fid")
      case True
      with fam show ?thesis by simp
    next
      case False
      from x have "x \<in> set (ts[i := t']) \<or> x = new"
        by (auto simp: toks)
      with False new_fam have "x \<in> set (ts[i := t'])" by blast
      then have "x \<in> insert t' (set ts)"
        using set_update_subset_insert [of ts i t'] by blast
      with False t'_fam have "x \<in> set ts" by blast
      then have "length (filter (P (family_id x)) ts) \<le> 1" by (rule inv_ts)
      with other [OF False] show ?thesis by simp
    qed
  qed
  have "get_by_hash s (hash_token e refresh_token) = Some i \<and>
      i < length (tokens s) \<and> is_live now (tokens s ! i) \<and>
      tokens s' = (tokens s)[i := (tokens s ! i)\<lparr>is_revoked := True\<rparr>] @ [new] \<and>
      is_revoked (tokens s' ! i) \<and>
      is_live now new \<and>
      family_id new = family_id (tokens s ! i) \<and>
      token_hash new = hash_token e (rnd_token rnd) \<and>
      live_in_family now s' (family_id new) = [new] \<and>
      family_invariant now s'"
    using found i live toks rev_i new_live new_fam new_hash fam inv'
    unfolding ts_def [symmetric] t'_def [symmetric] fid_def [symmetric]
    by simp
  then show ?thesis by blast
qed

theorem refresh_rotation_preserves_family_invariant_witness:
  "family_invariant 1000 example_db \<and>
   refresh_tokens example_env 1000 example_entropy example_db ''r1'' None None None =
     (Inr (create_access_token_ver example_env 1000 alice_id 1 None),
      create_token (revoke_token example_db 1) alice_id ''h:r9'' family_a 605800 None None None) \<and>
   family_invariant 1000
     (create_token (revoke_token example_db 1) alice_id ''h:r9'' family_a 605800 None None None) \<and>
   live_in_family 1000
     (create_token (revoke_token example_db 1) alice_id ''h:r9'' family_a 605800 None None None)
     family_a =
     [\<lparr>rt_user_id = alice_id, token_hash = ''h:r9'', family_id = family_a, expires_at = 605800,
       is_revoked = False, device_id = None, device_name = None, ip_address = None\<rparr>]"
proof -
  let ?s' = "create_token (revoke_token example_db 1) alice_id ''h:r9'' family_a 605800 None None None"
  let ?new = "\<lparr>rt_user_id = alice_id, token_hash = ''h:r9'', family_id = family_a, expires_at = 605800,
       is_revoked = False, device_id = None, device_name = None, ip_address = None\<rparr>"
  have inv: "family_invariant 1000 example_db"
    by (simp add: family_invariant_def live_in_family_def is_live_def is_expired_def example_defs)
  have ttl: "0 < REFRESH_TOKEN_TTL (settings example_env)"
    by (simp add: example_env_def example_settings_def)
  have found: "get_by_hash example_db (hash_token example_env ''r1'') = Some 1"
    by (simp add: get_by_hash_def hash_token_def example_defs)
  have row: "tokens example_db ! 1 =
      \<lparr>rt_user_id = alice_id, token_hash = ''h:r1'', family_id = family_a, expires_at = 6000,
       is_revoked = False, device_id = None, device_name = None, ip_address = None\<rparr>"
    by (simp add: example_db_def example_tokens_def)
  have usr: "get_by_id example_db alice_id = Some alice"
    by (simp add: get_by_id_def example_defs)
  have act: "is_active alice" "u_id alice = alice_id" "token_version alice = 1"
    by (simp_all add: alice_def)
  have rnd: "hash_token example_env (rnd_token example_entropy) = ''h:r9''"
    "1000 + REFRESH_TOKEN_TTL (settings example_env) = 605800"
    by (simp_all add: hash_token_def example_env_def example_entropy_def example_settings_def)
  have ok: "refresh_tokens example_env 1000 example_entropy example_db ''r1'' None None None =
     (Inr (create_access_token_ver example_env 1000 alice_id 1 None), ?s')"
    using row
    by (simp add: refresh_tokens_def found usr act rnd create_refresh_token_def is_expired_def
        Let_def)
  from refresh_rotation_preserves_family_invariant [OF inv ttl ok]
  obtain i new where th: "get_by_hash example_db (hash_token example_env ''r1'') = Some i"
    "tokens ?s' = (tokens example_db)[i := (tokens example_db ! i)\<lparr>is_revoked := True\<rparr>] @ [new]"
    "family_id new = family_id (tokens example_db ! i)"
    "live_in_family 1000 ?s' (family_id new) = [new]"
    "family_invariant 1000 ?s'"
    by blast
  from th(1) found have i: "i = 1" by simp
  have "last (tokens ?s') = ?new"
    by (simp add: create_token_def)
  with th(2) have new: "new = ?new" by simp
  from th(3) i row have "family_id new = family_a" by simp
  with th(4) new have "live_in_family 1000 ?s' family_a = [?new]" by simp
  with inv ok th(5) show ?thesis by simp
qed

end
